theory Spec2Isabelle
  imports Main
begin

section \<open>JavaScript values and objects\<close>

text \<open>
  The registry of \<^verbatim>\<open>index.js\<close> stores references to engine objects that the caller
  owns, and \<^verbatim>\<open>register\<close> writes properties onto those objects before it validates
  them. Objects therefore live in an explicit heap (a list, the address being the index),
  and a value is either a primitive or a reference into that heap.

  Numbers are modelled as integers (no fractional part, no NaN). Properties
  are ordinary writable data properties of extensible objects. An object carries its own
  properties, the properties it sees through its prototype chain (flattened into one
  map), whether \<^verbatim>\<open>typeof\<close> reports \<^verbatim>\<open>'function'\<close> for it, and the string it
  converts to when used as a property key.
\<close>

type_synonym addr = nat

datatype val = Undefined | Null | Bool bool | Num int | Str string | Ref addr

record obj =
  is_fn :: bool
  own :: "string \<rightharpoonup> val"
  inherited :: "string \<rightharpoonup> val"
  str :: string

type_synonym heap = "obj list"

datatype error = TypeError | InvalidEngine

definition plain_obj :: obj where
  \<comment> \<open>the object literal \<^verbatim>\<open>{}\<close>\<close>
  "plain_obj = \<lparr>is_fn = False, own = Map.empty, inherited = Map.empty, str = ''[object Object]''\<rparr>"

definition deref :: "heap \<Rightarrow> addr \<Rightarrow> obj" where
  \<comment> \<open>an address outside the heap denotes no object of the program; it reads as \<^verbatim>\<open>{}\<close>\<close>
  "deref h a = (if a < length h then h ! a else plain_obj)"

definition alloc :: "heap \<Rightarrow> obj \<Rightarrow> heap \<times> addr" where
  "alloc h ob = (h @ [ob], length h)"

definition lookup :: "heap \<Rightarrow> addr \<Rightarrow> string \<Rightarrow> val" where
  \<comment> \<open>\<^verbatim>\<open>o[p]\<close> on an object: own property first, then the prototype chain, else undefined\<close>
  "lookup h a p =
     (case own (deref h a) p of
        Some v \<Rightarrow> v
      | None \<Rightarrow> (case inherited (deref h a) p of Some v \<Rightarrow> v | None \<Rightarrow> Undefined))"

definition set_prop :: "heap \<Rightarrow> addr \<Rightarrow> string \<Rightarrow> val \<Rightarrow> heap" where
  \<comment> \<open>\<^verbatim>\<open>o[p] = v\<close>: creates or overwrites the own property\<close>
  "set_prop h a p v =
     (if a < length h then h[a := (h ! a)\<lparr>own := (own (h ! a))(p \<mapsto> v)\<rparr>] else h)"

fun truthy :: "val \<Rightarrow> bool" where
  "truthy Undefined = False"
| "truthy Null = False"
| "truthy (Bool b) = b"
| "truthy (Num n) = (n \<noteq> 0)"
| "truthy (Str s) = (s \<noteq> [])"
| "truthy (Ref a) = True"

fun nullish :: "val \<Rightarrow> bool" where
  "nullish Undefined = True"
| "nullish Null = True"
| "nullish v = False"

definition js_or :: "val \<Rightarrow> val \<Rightarrow> val" where
  \<comment> \<open>\<^verbatim>\<open>a || b\<close> (both operands here are reads without effect)\<close>
  "js_or a b = (if truthy a then a else b)"

fun is_function :: "heap \<Rightarrow> val \<Rightarrow> bool" where
  \<comment> \<open>\<^verbatim>\<open>typeof v === 'function'\<close>\<close>
  "is_function h (Ref a) = is_fn (deref h a)"
| "is_function h v = False"

fun is_object :: "heap \<Rightarrow> val \<Rightarrow> bool" where
  \<comment> \<open>\<^verbatim>\<open>typeof v === 'object'\<close>, which holds of null too\<close>
  "is_object h (Ref a) = (\<not> is_fn (deref h a))"
| "is_object h Null = True"
| "is_object h v = False"

fun member :: "heap \<Rightarrow> val \<Rightarrow> string \<Rightarrow> val" where
  \<comment> \<open>\<^verbatim>\<open>v.p\<close> for a value that is not undefined or null, and a name \<^verbatim>\<open>p\<close> that the
      String, Number and Boolean prototypes do not define (the registry reads
      \<^verbatim>\<open>render\<close>, \<^verbatim>\<open>renderFile\<close>, \<^verbatim>\<open>__express\<close> and \<^verbatim>\<open>options\<close>)\<close>
  "member h (Ref a) p = lookup h a p"
| "member h v p = Undefined"

fun has_own :: "heap \<Rightarrow> val \<Rightarrow> string \<Rightarrow> bool" where
  \<comment> \<open>\<^verbatim>\<open>v.hasOwnProperty(p)\<close> for a value that is not undefined or null\<close>
  "has_own h (Ref a) p = (own (deref h a) p \<noteq> None)"
| "has_own h v p = False"

fun enum_props :: "heap \<Rightarrow> val \<Rightarrow> (string \<rightharpoonup> val)" where
  \<comment> \<open>what lodash's \<^verbatim>\<open>_.extend\<close> copies from one source argument: the own
      properties of an object or function, nothing from any other value\<close>
  "enum_props h (Ref a) = own (deref h a)"
| "enum_props h v = Map.empty"

subsection \<open>Conversion to a property key\<close>

definition digit_char :: "nat \<Rightarrow> char" where
  "digit_char d = ''0123456789'' ! d"

fun digits :: "nat \<Rightarrow> string" where
  "digits n = (if n < 10 then [digit_char n] else digits (n div 10) @ [digit_char (n mod 10)])"

fun to_str :: "heap \<Rightarrow> val \<Rightarrow> string" where
  \<comment> \<open>\<^verbatim>\<open>String(v)\<close>\<close>
  "to_str h Undefined = ''undefined''"
| "to_str h Null = ''null''"
| "to_str h (Bool b) = (if b then ''true'' else ''false'')"
| "to_str h (Num n) = (if n < 0 then ''-'' @ digits (nat (- n)) else digits (nat n))"
| "to_str h (Str s) = s"
| "to_str h (Ref a) = str (deref h a)"

fun index0 :: "heap \<Rightarrow> val \<Rightarrow> val" where
  \<comment> \<open>\<^verbatim>\<open>ext[0]\<close> for a value that is not undefined or null (there the read throws, which
      the callers below decide before they come here)\<close>
  "index0 h (Str s) = (case s of [] \<Rightarrow> Undefined | c # cs \<Rightarrow> Str [c])"
| "index0 h (Ref a) = lookup h a ''0''"
| "index0 h v = Undefined"

definition dot_key :: "heap \<Rightarrow> val \<Rightarrow> string" where
  \<comment> \<open>\<^verbatim>\<open>if (ext[0] !== '.') { ext = '.' + ext; }\<close> followed by the use of \<^verbatim>\<open>ext\<close> as a
      key of the cache\<close>
  "dot_key h ext = (if index0 h ext \<noteq> Str ''.'' then ''.'' @ to_str h ext else to_str h ext)"

section \<open>The registry\<close>

text \<open>
  \<^verbatim>\<open>engines.options\<close> and \<^verbatim>\<open>engines.cache\<close> are the two mappings of the registry; the
  cache holds references to engine objects. The modules \<^verbatim>\<open>./defaults/lodash\<close> and
  \<^verbatim>\<open>./defaults/noop\<close> that \<^verbatim>\<open>defaultEngines\<close> requires are objects of the heap as well;
  the state records their addresses.
\<close>

text \<open>
  The calls of \<^verbatim>\<open>debug\<close> only write a trace and are left out. The methods that
  the source writes with \<^verbatim>\<open>this\<close> (\<^verbatim>\<open>extend\<close>, \<^verbatim>\<open>get\<close>, \<^verbatim>\<open>clear\<close>) are called
  on the registry, as every caller in the source does. A call that throws returns the
  error together with the state as the exception leaves it.
\<close>

record state =
  heap :: heap
  options :: "string \<rightharpoonup> val"
  cache :: "string \<rightharpoonup> addr"
  lodash_module :: addr
  noop_module :: addr

definition arg :: "val list \<Rightarrow> nat \<Rightarrow> val" where
  \<comment> \<open>a formal parameter: undefined when the call passes fewer arguments\<close>
  "arg args i = (if i < length args then args ! i else Undefined)"

subsection \<open>extend and option\<close>

definition extend :: "state \<Rightarrow> val \<Rightarrow> state" where
  \<comment> \<open>\<^verbatim>\<open>this.options = _.extend({}, this.options, obj)\<close>\<close>
  "extend s obj = s\<lparr>options := (Map.empty ++ options s) ++ enum_props (heap s) obj\<rparr>"

text \<open>
  \<^verbatim>\<open>option\<close> returns a stored value when it is called with one string, and the
  registry otherwise. With an object (or null) as the first argument,
  \<^verbatim>\<open>_.extend.apply(_, [engines.options].concat(args))\<close> merges every argument into the
  options in turn; in the remaining case the key is converted to a string and set.
\<close>

datatype ret = Got val | Self

definition option :: "state \<Rightarrow> val list \<Rightarrow> ret \<times> state" where
  "option s args =
     (let key = arg args 0; value = arg args 1 in
      case (length args = 1, key) of
        (True, Str k) \<Rightarrow> (Got (case options s k of Some v \<Rightarrow> v | None \<Rightarrow> Undefined), s)
      | _ \<Rightarrow>
         if is_object (heap s) key
         then (Self, s\<lparr>options := foldl (\<lambda>m v. m ++ enum_props (heap s) v) (options s) args\<rparr>)
         else (Self, s\<lparr>options := (options s)(to_str (heap s) key \<mapsto> value)\<rparr>))"

subsection \<open>register\<close>

text \<open>
  Lines 148 to 163 of \<^verbatim>\<open>index.js\<close> resolve the arguments to the engine object that
  is to be stored, writing onto it on the way. The result is the address of that object,
  or the \<^verbatim>\<open>TypeError\<close> of a property access on undefined or null, together with the
  heap as it is at that point. \<^verbatim>\<open>engines.noop\<close> is never assigned in the
  source, so it reads as undefined.
\<close>

definition resolve :: "heap \<Rightarrow> val list \<Rightarrow> (error + addr) \<times> heap" where
  "resolve h0 args =
     (let (h1, blank) = alloc h0 plain_obj;
          (h2, opts, fn) =
             (if length args = 2
              then (let (h, fresh) = alloc h1 plain_obj in (h, Ref fresh, arg args 1))
              else (h1, arg args 1, arg args 2));
          (r, h3) =
             (case fn of
                Ref a \<Rightarrow>
                  if is_fn (deref h2 a)
                  then (Inr a, set_prop h2 a ''render'' (lookup h2 a ''render''))
                  else (Inr a, set_prop h2 a ''renderFile''
                                 (js_or (lookup h2 a ''renderFile'') (lookup h2 a ''__express'')))
              | Null \<Rightarrow> (Inl TypeError, h2)
              | _ \<Rightarrow> (Inr blank, h2))
      in case r of
           Inl e \<Rightarrow> (Inl e, h3)
         | Inr engine \<Rightarrow>
             if nullish fn then (Inl TypeError, h3)
             else if truthy (member h3 fn ''options'')
               then (Inr engine, set_prop h3 engine ''options'' (member h3 fn ''options''))
             else if truthy opts
               then (Inr engine, set_prop h3 engine ''options'' opts)
             else (let (h4, fresh) = alloc h3 plain_obj
                   in (Inr engine, set_prop h4 engine ''options'' (Ref fresh))))"

definition register :: "state \<Rightarrow> val list \<Rightarrow> error option \<times> state" where
  "register s args =
     (let ext = arg args 0 in
      case resolve (heap s) args of
        (Inl e, h) \<Rightarrow> (Some e, s\<lparr>heap := h\<rparr>)
      | (Inr engine, h) \<Rightarrow>
          if \<not> is_function h (lookup h engine ''render'')
            then (Some InvalidEngine, s\<lparr>heap := h\<rparr>)
          else if nullish ext
            then (Some TypeError, s\<lparr>heap := h\<rparr>)
          else (None, s\<lparr>heap := h, cache := (cache s)(dot_key h ext \<mapsto> engine)\<rparr>))"

subsection \<open>load\<close>

text \<open>
  \<^verbatim>\<open>_.forIn(obj, callback)\<close> calls the callback on each enumerable property of
  \<^verbatim>\<open>obj\<close> in turn; \<open>load\<close> takes those properties as the list of pairs that the
  iteration visits (no pair when \<^verbatim>\<open>obj\<close> is undefined or null). The method call
  \<^verbatim>\<open>value.hasOwnProperty\<close> throws on undefined and null.
\<close>

fun load :: "state \<Rightarrow> (string \<times> val) list \<Rightarrow> error option \<times> state" where
  "load s [] = (None, s)"
| "load s ((key, v) # rest) =
     (if nullish v then (Some TypeError, s)
      else if has_own (heap s) v ''render''
        then (case register s [Str key, v] of
                (Some e, s') \<Rightarrow> (Some e, s')
              | (None, s') \<Rightarrow> load s' rest)
      else load s rest)"

subsection \<open>get and clear\<close>

text \<open>
  \<^verbatim>\<open>get\<close> returns the cache itself or one entry of it. Line 229,
  \<^verbatim>\<open>ext = ext || this.noop\<close>, comes after the return for a falsy \<^verbatim>\<open>ext\<close> and so
  leaves \<^verbatim>\<open>ext\<close> as it is. A stored engine is an object, hence truthy, so
  \<^verbatim>\<open>!engine\<close> holds exactly when the key is absent.
\<close>

datatype got = Whole "string \<rightharpoonup> addr" | Engine val

definition get :: "state \<Rightarrow> val \<Rightarrow> got" where
  "get s ext =
     (if \<not> truthy ext then Whole (cache s)
      else case cache s (dot_key (heap s) ext) of
             Some a \<Rightarrow> Engine (Ref a)
           | None \<Rightarrow> (case cache s ''*'' of Some a \<Rightarrow> Engine (Ref a) | None \<Rightarrow> Engine Undefined))"

definition clear :: "state \<Rightarrow> val \<Rightarrow> state" where
  "clear s ext =
     (if truthy ext then s\<lparr>cache := (cache s)(dot_key (heap s) ext := None)\<rparr>
      else s\<lparr>cache := Map.empty\<rparr>)"

subsection \<open>init and defaultEngines\<close>

definition defaultEngines :: "state \<Rightarrow> error option \<times> state" where
  "defaultEngines s =
     (case register s [Str ''tmpl'', Ref (lodash_module s)] of
        (Some e, s') \<Rightarrow> (Some e, s')
      | (None, s') \<Rightarrow> register s' [Str ''*'', Ref (noop_module s')])"

definition init :: "state \<Rightarrow> val \<Rightarrow> error option \<times> state" where
  "init s opts = defaultEngines (extend (s\<lparr>options := Map.empty, cache := Map.empty\<rparr>) opts)"

subsection \<open>The registry when the module has been loaded\<close>

text \<open>
  Modelled from the spec: the files \<^verbatim>\<open>defaults/lodash.js\<close> and \<^verbatim>\<open>defaults/noop.js\<close>
  are not among the sources. Section 4.1 describes what each exports as a descriptor with
  a \<^verbatim>\<open>render\<close> function, so each is an object whose own \<^verbatim>\<open>render\<close> property refers to
  a function. What the two functions compute plays no part below.
\<close>

definition fn_obj :: obj where
  "fn_obj = \<lparr>is_fn = True, own = Map.empty, inherited = Map.empty, str = ''function () {}''\<rparr>"

definition descriptor :: "addr \<Rightarrow> obj" where
  "descriptor r = plain_obj\<lparr>own := [''render'' \<mapsto> Ref r]\<rparr>"

definition loaded :: state where
  \<comment> \<open>lines 36 and 45: both mappings empty; the two modules at addresses 1 and 3\<close>
  "loaded = \<lparr>heap = [fn_obj, descriptor 0, fn_obj, descriptor 2],
             options = Map.empty, cache = Map.empty,
             lodash_module = 1, noop_module = 3\<rparr>"

subsection \<open>Objects of a caller\<close>

text \<open>
  A heap with some objects that a caller of the registry may hold, for the concrete
  evaluations below: at address 4 a function without properties, at 5 the object
  \<^verbatim>\<open>{}\<close>, at 6 \<^verbatim>\<open>{render: 5}\<close>, at 7 \<^verbatim>\<open>{a: 1}\<close>, at 8 \<^verbatim>\<open>{b: 2}\<close>, and at 9 a
  function whose \<^verbatim>\<open>render\<close> property is the function at 4.
\<close>

definition sample :: state where
  "sample = loaded\<lparr>heap := heap loaded @
      [fn_obj, plain_obj, plain_obj\<lparr>own := [''render'' \<mapsto> Num 5]\<rparr>,
       plain_obj\<lparr>own := [''a'' \<mapsto> Num 1]\<rparr>, plain_obj\<lparr>own := [''b'' \<mapsto> Num 2]\<rparr>,
       fn_obj\<lparr>own := [''render'' \<mapsto> Ref 4]\<rparr>]\<rparr>"

subsection \<open>What bulk registration is specified to store\<close>

text \<open>
  The specification of \<^verbatim>\<open>load\<close> in words: every entry whose value owns a
  \<^verbatim>\<open>render\<close> property is stored under its own key, with a dot in front unless the key
  starts with one; the other entries are passed over. \<open>registered\<close> is that cache,
  written without reference to \<open>register\<close>, for comparison with \<open>load\<close>.
\<close>

fun registered :: "heap \<Rightarrow> (string \<rightharpoonup> addr) \<Rightarrow> (string \<times> val) list \<Rightarrow> (string \<rightharpoonup> addr)" where
  "registered h c [] = c"
| "registered h c ((key, Ref a) # rest) =
     (if own (deref h a) ''render'' \<noteq> None
      then registered h (c((if key \<noteq> [] \<and> hd key = CHR ''.'' then key else ''.'' @ key) \<mapsto> a)) rest
      else registered h c rest)"
| "registered h c ((key, v) # rest) = registered h c rest"

section \<open>Heap lemmas\<close>

lemmas heap_defs = alloc_def set_prop_def lookup_def deref_def plain_obj_def fn_obj_def
  descriptor_def js_or_def arg_def dot_key_def

lemmas eval_defs = sample_def loaded_def init_def defaultEngines_def register_def resolve_def
  extend_def get_def clear_def option_def heap_defs Let_def

lemma length_set_prop [simp]: "length (set_prop h a p v) = length h"
  by (simp add: set_prop_def)

lemma deref_set_prop:
  "deref (set_prop h a p v) b =
     (if b = a \<and> a < length h then (deref h a)\<lparr>own := (own (deref h a))(p \<mapsto> v)\<rparr> else deref h b)"
  by (auto simp: set_prop_def deref_def)

text \<open>Allocating \<^verbatim>\<open>{}\<close> is invisible to every read: a free address reads as \<^verbatim>\<open>{}\<close> already.\<close>

lemma deref_alloc_plain [simp]: "deref (h @ [plain_obj]) b = deref h b"
  by (auto simp: deref_def nth_append)

lemma deref_alloc_plain2 [simp]: "deref (h @ [plain_obj, plain_obj]) b = deref h b"
  using deref_alloc_plain [of "h @ [plain_obj]" b] by simp

lemma is_fn_allocated: "is_fn (deref h a) \<Longrightarrow> a < length h"
  by (auto simp: deref_def plain_obj_def split: if_splits)

lemma own_allocated: "own (deref h a) p = Some v \<Longrightarrow> a < length h"
  by (auto simp: deref_def plain_obj_def split: if_splits)

lemma is_fn_set_prop [simp]: "is_fn (deref (set_prop h a p v) b) = is_fn (deref h b)"
  by (simp add: deref_set_prop)

lemma own_set_prop:
  "own (deref (set_prop h a p v) b) q =
     (if b = a \<and> a < length h \<and> q = p then Some v else own (deref h b) q)"
  by (simp add: deref_set_prop)

lemma inherited_set_prop [simp]:
  "inherited (deref (set_prop h a p v) b) = inherited (deref h b)"
  by (simp add: deref_set_prop)

lemma lookup_set_prop:
  "lookup (set_prop h a p v) b q =
     (if b = a \<and> a < length h \<and> q = p then v else lookup h b q)"
  by (simp add: lookup_def own_set_prop cong: option.case_cong)

lemma lookup_alloc_plain [simp]:
  "lookup (h @ [plain_obj]) b q = lookup h b q"
  "lookup (h @ [plain_obj, plain_obj]) b q = lookup h b q"
  by (simp_all add: lookup_def cong: option.case_cong)

lemma lookup_own: "own (deref h a) p = Some v \<Longrightarrow> lookup h a p = v"
  by (simp add: lookup_def)

lemma is_function_set_prop [simp]: "is_function (set_prop h a p v) w = is_function h w"
  by (cases w) simp_all

lemma is_function_alloc_plain [simp]:
  "is_function (h @ [plain_obj]) w = is_function h w"
  "is_function (h @ [plain_obj, plain_obj]) w = is_function h w"
  by (cases w; simp)+

lemma dot_key_Str: "dot_key h (Str e) = (if e \<noteq> [] \<and> hd e = CHR ''.'' then e else ''.'' @ e)"
  by (cases e) (auto simp: dot_key_def)

lemma delete_absent: "cache s k = None \<Longrightarrow> s\<lparr>cache := (cache s)(k := None)\<rparr> = s"
  by (simp add: fun_upd_idem)

section \<open>Resolution of the engine argument\<close>


text \<open>
  A function passed as the engine is itself the resolved engine; the assignment
  \<^verbatim>\<open>engine.render = fn.render\<close> leaves what \<^verbatim>\<open>fn.render\<close> reads as, and no write
  changes which objects are functions.
\<close>

lemma resolve_function:
  assumes "is_fn (deref h a)"
  shows "\<exists>h'. resolve h [ext, Ref a] = (Inr a, h') \<and>
              lookup h' a ''render'' = lookup h a ''render'' \<and>
              (\<forall>w. is_function h' w = is_function h w)"
proof -
  have a: "a < length h" using assms by (rule is_fn_allocated)
  obtain r h' where r: "resolve h [ext, Ref a] = (r, h')"
    by (cases "resolve h [ext, Ref a]")
  from r assms a have "r = Inr a \<and> lookup h' a ''render'' = lookup h a ''render'' \<and>
      (\<forall>w. is_function h' w = is_function h w)"
    by (auto simp: resolve_def Let_def alloc_def arg_def lookup_set_prop split: if_splits)
  then show ?thesis using r by simp
qed

section \<open>Lookup after default initialization\<close>

text \<open>
  Claim C1 says that after default initialization \<^verbatim>\<open>get\<close> of an extension without an
  exact match returns the wildcard descriptor. Evaluated on the registry as the module
  leaves it: \<^verbatim>\<open>init()\<close> raises nothing and stores the no-op engine under \<^verbatim>\<open>.*\<close>,
  because \<^verbatim>\<open>register\<close> puts a dot in front of \<^verbatim>\<open>*\<close>; the fallback of \<^verbatim>\<open>get\<close> reads
  the key \<^verbatim>\<open>*\<close>, finds nothing, and \<^verbatim>\<open>get('unknownext')\<close> is undefined.
\<close>

theorem get_unknown_after_init:
  "fst (init loaded Undefined) = None \<and>
   cache (snd (init loaded Undefined)) = [''.tmpl'' \<mapsto> 1, ''.*'' \<mapsto> 3] \<and>
   get (snd (init loaded Undefined)) (Str ''unknownext'') = Engine Undefined"
  by (simp add: eval_defs)

section \<open>The key under which register stores\<close>

text \<open>
  Claim C2, as amended: when \<^verbatim>\<open>register\<close> is called with a string other than \<^verbatim>\<open>*\<close>
  as the extension and succeeds, it stores the resolved engine under that string with a
  dot put in front, unless the string already starts with a dot; the empty string is
  stored under \<^verbatim>\<open>.\<close>. Every other entry of the cache is as before.
\<close>

theorem register_key:
  assumes "fst (register s (Str ext # rest)) = None" and "ext \<noteq> ''*''"
  shows "\<exists>a. fst (resolve (heap s) (Str ext # rest)) = Inr a \<and>
             cache (snd (register s (Str ext # rest))) =
               (cache s)((if ext \<noteq> [] \<and> hd ext = CHR ''.'' then ext else ''.'' @ ext) \<mapsto> a)"
  using assms(1)
  by (auto simp: register_def Let_def arg_def dot_key_Str split: prod.splits sum.splits if_splits)

theorem register_key_witness:
  "fst (register sample [Str ''hbs'', Ref 9]) = None \<and>
   fst (resolve (heap sample) [Str ''hbs'', Ref 9]) = Inr 9 \<and>
   cache (snd (register sample [Str ''hbs'', Ref 9])) = [''.hbs'' \<mapsto> 9]"
  using register_key [of sample "''hbs''" "[Ref 9]"]
  by (simp add: eval_defs)

text \<open>
  The claim as stated exempts the empty key from the dot. \<^verbatim>\<open>register('', fn)\<close> with the
  function at address 9 succeeds and stores it under \<^verbatim>\<open>.\<close>; the key \<^verbatim>\<open>''\<close> stays absent.
\<close>

theorem register_empty_key_counterexample:
  "fst (register sample [Str '''', Ref 9]) = None \<and>
   cache (snd (register sample [Str '''', Ref 9])) = [''.'' \<mapsto> 9] \<and>
   cache (snd (register sample [Str '''', Ref 9])) '''' = None"
  by (simp add: eval_defs)

section \<open>Registering a function\<close>

text \<open>
  Claim C3, as amended: for a function \<^verbatim>\<open>fn\<close> and a non-empty extension string,
  \<^verbatim>\<open>register(ext, fn)\<close> succeeds exactly when \<^verbatim>\<open>fn.render\<close> is a function. Then the
  function object itself is what the cache holds, \<^verbatim>\<open>get(ext)\<close> returns it, and its
  \<^verbatim>\<open>render\<close> is the \<^verbatim>\<open>render\<close> property that \<^verbatim>\<open>fn\<close> had. Otherwise the Invalid Engine
  error is raised and the cache is unchanged.
\<close>

theorem register_callable:
  assumes "is_fn (deref (heap s) a)" and "ext \<noteq> []"
  shows "if is_function (heap s) (lookup (heap s) a ''render'')
         then fst (register s [Str ext, Ref a]) = None \<and>
              get (snd (register s [Str ext, Ref a])) (Str ext) = Engine (Ref a) \<and>
              lookup (heap (snd (register s [Str ext, Ref a]))) a ''render'' =
                lookup (heap s) a ''render'' \<and>
              is_function (heap (snd (register s [Str ext, Ref a]))) (lookup (heap s) a ''render'')
         else fst (register s [Str ext, Ref a]) = Some InvalidEngine \<and>
              cache (snd (register s [Str ext, Ref a])) = cache s"
proof -
  from resolve_function [OF assms(1), of "Str ext"] obtain h where
    r: "resolve (heap s) [Str ext, Ref a] = (Inr a, h)"
    and l: "lookup h a ''render'' = lookup (heap s) a ''render''"
    and f: "\<forall>w. is_function h w = is_function (heap s) w"
    by blast
  show ?thesis using r l f assms(2)
    by (simp add: register_def get_def arg_def)
qed

theorem register_callable_witness:
  "is_function (heap sample) (lookup (heap sample) 9 ''render'') \<and>
   fst (register sample [Str ''hbs'', Ref 9]) = None \<and>
   get (snd (register sample [Str ''hbs'', Ref 9])) (Str ''hbs'') = Engine (Ref 9) \<and>
   lookup (heap (snd (register sample [Str ''hbs'', Ref 9]))) 9 ''render'' = Ref 4"
  using register_callable [of sample 9 "''hbs''"]
  by (simp add: eval_defs)

text \<open>
  The claim as stated lets every function be registered, with the function as its own
  \<^verbatim>\<open>render\<close>. The function at address 4 has no \<^verbatim>\<open>render\<close> property:
  \<^verbatim>\<open>register('hbs', fn)\<close> raises the Invalid Engine error, and \<^verbatim>\<open>get('hbs')\<close>
  afterwards is undefined.
\<close>

theorem register_plain_function_counterexample:
  "is_function (heap sample) (Ref 4) \<and>
   fst (register sample [Str ''hbs'', Ref 4]) = Some InvalidEngine \<and>
   get (snd (register sample [Str ''hbs'', Ref 4])) (Str ''hbs'') = Engine Undefined"
  by (simp add: eval_defs)

section \<open>Validation comes before the cache is written\<close>



section \<open>Bulk registration\<close>

text \<open>
  Registering a value that owns a \<^verbatim>\<open>render\<close> which is a function succeeds, stores
  the value under the dotted key, and leaves alone which objects are functions and what
  own \<^verbatim>\<open>render\<close> each object has, so the test and the validation of later
  entries are decided by the heap at the start.
\<close>

lemma register_owned:
  assumes "has_own (heap s) v ''render''"
    and "is_function (heap s) (member (heap s) v ''render'')"
  shows "\<exists>a s'. v = Ref a \<and> register s [Str k, v] = (None, s') \<and>
           cache s' = (cache s)((if k \<noteq> [] \<and> hd k = CHR ''.'' then k else ''.'' @ k) \<mapsto> a) \<and>
           options s' = options s \<and>
           (\<forall>b. is_fn (deref (heap s') b) = is_fn (deref (heap s) b)) \<and>
           (\<forall>b. own (deref (heap s') b) ''render'' = own (deref (heap s) b) ''render'')"
proof -
  from assms(1) obtain a r where v: "v = Ref a" and o: "own (deref (heap s) a) ''render'' = Some r"
    by (cases v) auto
  have a: "a < length (heap s)" using o by (rule own_allocated)
  have l: "lookup (heap s) a ''render'' = r" using o by (rule lookup_own)
  obtain x h where r: "resolve (heap s) [Str k, Ref a] = (x, h)"
    by (cases "resolve (heap s) [Str k, Ref a]")
  from r o a l have "x = Inr a \<and> lookup h a ''render'' = r \<and>
      (\<forall>b. is_fn (deref h b) = is_fn (deref (heap s) b)) \<and>
      (\<forall>b. own (deref h b) ''render'' = own (deref (heap s) b) ''render'')"
    by (auto simp: resolve_def Let_def alloc_def arg_def lookup_set_prop own_set_prop split: if_splits)
  moreover have "is_function (heap s) r" using assms(2) v l by simp
  ultimately show ?thesis using r v
    by (cases r) (auto simp: register_def arg_def dot_key_Str)
qed

lemma registered_cong:
  "(\<forall>b. own (deref h' b) ''render'' = own (deref h b) ''render'') \<Longrightarrow>
   registered h' c es = registered h c es"
  by (induction h c es rule: registered.induct) simp_all

text \<open>
  Claim C5, as amended: for every mapping passed to \<^verbatim>\<open>load\<close> whose values are neither
  undefined nor null and in which every own \<^verbatim>\<open>render\<close> is a function, \<^verbatim>\<open>load\<close> raises
  no error and the cache afterwards is the one in which exactly the entries whose value
  owns a \<^verbatim>\<open>render\<close> property have been stored, in order, each under its own key with a
  dot in front unless the key starts with one; the options are unchanged.
\<close>

theorem load_registers:
  assumes "\<forall>(k, v) \<in> set es. \<not> nullish v"
    and "\<forall>(k, v) \<in> set es. has_own (heap s) v ''render'' \<longrightarrow>
           is_function (heap s) (member (heap s) v ''render'')"
  shows "fst (load s es) = None \<and>
         cache (snd (load s es)) = registered (heap s) (cache s) es \<and>
         options (snd (load s es)) = options s"
  using assms
proof (induction es arbitrary: s)
  case Nil
  show ?case by simp
next
  case (Cons e es)
  obtain k v where e: "e = (k, v)" by (cases e)
  have nn: "\<not> nullish v" using Cons.prems(1) e by simp
  show ?case
  proof (cases "has_own (heap s) v ''render''")
    case False
    have "registered (heap s) (cache s) ((k, v) # es) = registered (heap s) (cache s) es"
      using False by (cases v) simp_all
    moreover have "load s ((k, v) # es) = load s es" using False nn by simp
    ultimately show ?thesis using Cons.IH [of s] Cons.prems e by simp
  next
    case True
    have "is_function (heap s) (member (heap s) v ''render'')"
      using Cons.prems(2) e True by simp
    from register_owned [OF True this, of k] obtain a s' where
      v: "v = Ref a" and r: "register s [Str k, v] = (None, s')"
      and c: "cache s' = (cache s)((if k \<noteq> [] \<and> hd k = CHR ''.'' then k else ''.'' @ k) \<mapsto> a)"
      and o: "options s' = options s"
      and f: "\<forall>b. is_fn (deref (heap s') b) = is_fn (deref (heap s) b)"
      and w: "\<forall>b. own (deref (heap s') b) ''render'' = own (deref (heap s) b) ''render''"
      by blast
    have ho: "has_own (heap s') x ''render'' = has_own (heap s) x ''render''" for x
      using w by (cases x) simp_all
    have fn: "is_function (heap s') x = is_function (heap s) x" for x
      using f by (cases x) simp_all
    have mem: "has_own (heap s) x ''render'' \<Longrightarrow>
        member (heap s') x ''render'' = member (heap s) x ''render''" for x
      using w by (cases x) (auto simp: lookup_def)
    have p2: "\<forall>(k, v) \<in> set es. has_own (heap s') v ''render'' \<longrightarrow>
           is_function (heap s') (member (heap s') v ''render'')"
      using Cons.prems(2) ho fn mem by auto
    have p1: "\<forall>(k, v) \<in> set es. \<not> nullish v" using Cons.prems(1) by simp
    have "load s ((k, v) # es) = load s' es" using True nn r by simp
    moreover have "registered (heap s) (cache s) ((k, v) # es) = registered (heap s') (cache s') es"
      using True v c registered_cong [OF w] by simp
    ultimately show ?thesis using Cons.IH [OF p1 p2] e o by simp
  qed
qed

theorem load_registers_witness:
  "fst (load sample [(''hbs'', Ref 1), (''txt'', Ref 5)]) = None \<and>
   cache (snd (load sample [(''hbs'', Ref 1), (''txt'', Ref 5)])) = [''.hbs'' \<mapsto> 1]"
  using load_registers [of "[(''hbs'', Ref 1), (''txt'', Ref 5)]" sample]
  by (simp add: sample_def loaded_def heap_defs)

text \<open>
  The claim as stated has every entry that owns a \<^verbatim>\<open>render\<close> property registered and
  no error raised. The object at address 6 owns \<^verbatim>\<open>render: 5\<close>:
  \<^verbatim>\<open>load({hbs: {render: 5}})\<close> raises the Invalid Engine error and stores nothing.
\<close>

theorem load_invalid_render_counterexample:
  "has_own (heap sample) (Ref 6) ''render'' \<and>
   fst (load sample [(''hbs'', Ref 6)]) = Some InvalidEngine \<and>
   cache (snd (load sample [(''hbs'', Ref 6)])) ''.hbs'' = None"
  by (simp add: eval_defs)

section \<open>Clearing\<close>

text \<open>
  Claim C6, as amended: \<^verbatim>\<open>clear()\<close> replaces the cache with the empty mapping and
  leaves the options unchanged; for a non-empty string, \<^verbatim>\<open>clear(ext)\<close> removes the one
  entry under the dotted key, leaves every other entry and the options unchanged, and
  changes nothing at all when that key is absent; \<^verbatim>\<open>clear('')\<close> empties the cache as
  \<^verbatim>\<open>clear()\<close> does.
\<close>

theorem clear_frame:
  assumes "ext \<noteq> []"
  shows "cache (clear s Undefined) = Map.empty \<and> options (clear s Undefined) = options s \<and>
         cache (clear s (Str ext)) =
           (cache s)((if hd ext = CHR ''.'' then ext else ''.'' @ ext) := None) \<and>
         options (clear s (Str ext)) = options s \<and>
         (cache s (if hd ext = CHR ''.'' then ext else ''.'' @ ext) = None \<longrightarrow>
            clear s (Str ext) = s) \<and>
         cache (clear s (Str '''')) = Map.empty"
  using assms by (auto simp: clear_def dot_key_Str delete_absent)

theorem clear_frame_witness:
  "cache (snd (init loaded Undefined)) = [''.tmpl'' \<mapsto> 1, ''.*'' \<mapsto> 3] \<and>
   cache (clear (snd (init loaded Undefined)) (Str ''tmpl'')) = [''.*'' \<mapsto> 3] \<and>
   clear (snd (init loaded Undefined)) (Str ''hbs'') = snd (init loaded Undefined)"
  using clear_frame [of "''tmpl''" "snd (init loaded Undefined)"]
    clear_frame [of "''hbs''" "snd (init loaded Undefined)"]
  by (simp add: eval_defs)

text \<open>
  The claim as stated has \<^verbatim>\<open>clear(ext)\<close> remove a single entry. After \<^verbatim>\<open>init()\<close> the
  cache holds \<^verbatim>\<open>.tmpl\<close>; after \<^verbatim>\<open>clear('')\<close> it does not.
\<close>

theorem clear_empty_string_counterexample:
  "cache (snd (init loaded Undefined)) ''.tmpl'' = Some 1 \<and>
   cache (clear (snd (init loaded Undefined)) (Str '''')) ''.tmpl'' = None"
  by (simp add: eval_defs)

section \<open>Lookup with and without the dot\<close>

text \<open>
  Claim C7, as amended: for every non-empty extension string \<^verbatim>\<open>e\<close> that does not start
  with a dot, \<^verbatim>\<open>get(e)\<close> and \<^verbatim>\<open>get('.' + e)\<close> return the same result.
\<close>

theorem get_dot:
  assumes "ext \<noteq> []" and "hd ext \<noteq> CHR ''.''"
  shows "get s (Str ext) = get s (Str (''.'' @ ext))"
  using assms by (simp add: get_def dot_key_Str)

theorem get_dot_witness:
  "get (snd (init loaded Undefined)) (Str ''tmpl'') = Engine (Ref 1) \<and>
   get (snd (init loaded Undefined)) (Str (''.'' @ ''tmpl'')) = Engine (Ref 1)"
  using get_dot [of "''tmpl''" "snd (init loaded Undefined)"]
  by (simp add: eval_defs)

text \<open>
  The empty string has no leading dot. After \<^verbatim>\<open>init()\<close>, \<^verbatim>\<open>get('')\<close> is the whole
  cache, and \<^verbatim>\<open>get('.' + '')\<close> is the lookup of the key \<^verbatim>\<open>.\<close>, which is undefined.
\<close>

theorem get_empty_string_counterexample:
  "get (snd (init loaded Undefined)) (Str '''') = Whole [''.tmpl'' \<mapsto> 1, ''.*'' \<mapsto> 3] \<and>
   get (snd (init loaded Undefined)) (Str (''.'' @ '''')) = Engine Undefined"
  by (simp add: eval_defs)

section \<open>Options\<close>



section \<open>Initialization\<close>

text \<open>
  Claim C9 says that after \<^verbatim>\<open>init(opts)\<close> the cache holds exactly the two default
  descriptors under \<^verbatim>\<open>.tmpl\<close> and \<^verbatim>\<open>*\<close>. Evaluated at \<^verbatim>\<open>init({a: 1})\<close>, with the
  object at address 7 as the argument: no error, \<^verbatim>\<open>option('a')\<close> is 1, and the cache
  holds the two descriptors under \<^verbatim>\<open>.tmpl\<close> and \<^verbatim>\<open>.*\<close>; the key \<^verbatim>\<open>*\<close> is absent.
\<close>

theorem init_cache_keys:
  "fst (init sample (Ref 7)) = None \<and>
   fst (option (snd (init sample (Ref 7))) [Str ''a'']) = Got (Num 1) \<and>
   cache (snd (init sample (Ref 7))) = [''.tmpl'' \<mapsto> 1, ''.*'' \<mapsto> 3] \<and>
   cache (snd (init sample (Ref 7))) ''*'' = None"
  by (simp add: eval_defs)

section \<open>Lookup with a falsy argument\<close>

text \<open>
  Claim C10: \<^verbatim>\<open>get\<close> called with the empty string, or with any other falsy value,
  returns the whole cache, as \<^verbatim>\<open>get()\<close> does; no key is looked up and the wildcard
  plays no part.
\<close>

theorem get_falsy:
  assumes "\<not> truthy v"
  shows "get s v = Whole (cache s) \<and> get s v = get s Undefined"
  using assms by (simp add: get_def)

theorem get_falsy_witness:
  "\<not> truthy (Str '''') \<and>
   get (snd (init loaded Undefined)) (Str '''') = Whole [''.tmpl'' \<mapsto> 1, ''.*'' \<mapsto> 3] \<and>
   get (snd (init loaded Undefined)) Undefined = Whole [''.tmpl'' \<mapsto> 1, ''.*'' \<mapsto> 3]"
  using get_falsy [of "Str ''''" "snd (init loaded Undefined)"]
  by (simp add: eval_defs)

end
